theory Spec2Isabelle
  imports Complex_Main "HOL-Library.Log_Nat" "HOL-Library.Code_Target_Numeral"
    "HOL-Library.List_Lexorder" "HOL-Library.Char_ord"
begin

section \<open>Numbers: Decimal, float and round\<close>

text \<open>
  The monetary columns are Python \<open>Decimal\<close> values and \<open>get_roi\<close> turns their quotient
  into a \<open>float\<close> that it rounds to four places. All three kinds of number are modelled by
  the rational number they denote, and every operation that rounds in Python rounds here:
  \<^item> \<open>Decimal\<close> arithmetic rounds its exact result to the 28 significant digits of the
    default context, ties to even;
  \<^item> \<open>float(d)\<close> is the binary64 number nearest to \<open>d\<close> (53 significant bits), ties to even;
  \<^item> \<open>round(x, n)\<close> rounds the exact value of the float \<open>x\<close> to \<open>n\<close> decimal places, ties to
    even, and returns the binary64 number nearest to that decimal.
  The exponent ranges of the two formats (\<open>Emax\<close> of the decimal context, overflow and
  subnormal numbers of binary64) are left out: the quotient of two column values of at
  most a few hundred digits stays far inside both. Python's \<open>-0.0\<close> is the rational 0.
\<close>

definition round_half_even :: "rat \<Rightarrow> int" where
  "round_half_even x =
     (let f = \<lfloor>x\<rfloor>; d = x - of_int f
      in if d < 1/2 then f
         else if 1/2 < d then f + 1
         else if even f then f else f + 1)"

text \<open>\<open>ilog b x\<close> is the exponent of the leading digit of \<open>x\<close> in base \<open>b\<close>, for \<open>x \<noteq> 0\<close>.\<close>

definition ilog :: "nat \<Rightarrow> rat \<Rightarrow> int" where
  "ilog b x =
     (let (n, d) = quotient_of \<bar>x\<bar>;
          e0 = int (floorlog b (nat n)) - int (floorlog b (nat d))
      in if rat_of_nat b powi e0 \<le> \<bar>x\<bar> then e0 else e0 - 1)"

text \<open>Rounding to \<open>p\<close> significant digits in base \<open>b\<close>, ties to even.\<close>

definition round_digits :: "nat \<Rightarrow> nat \<Rightarrow> rat \<Rightarrow> rat" where
  "round_digits b p x =
     (if x = 0 then 0
      else let e = ilog b x - (int p - 1)
           in rat_of_int (round_half_even (x / rat_of_nat b powi e)) * rat_of_nat b powi e)"

datatype exn =
    DivisionByZero
  | InvalidOperation
  | TypeError
  | Http404
  | ValidationError "(string \<times> string) list"

definition dec_sub :: "rat \<Rightarrow> rat \<Rightarrow> rat" where
  "dec_sub x y = round_digits 10 28 (x - y)"

definition dec_div :: "rat \<Rightarrow> rat \<Rightarrow> exn + rat" where
  "dec_div x y =
     (if y = 0 then (if x = 0 then Inl InvalidOperation else Inl DivisionByZero)
      else Inr (round_digits 10 28 (x / y)))"

definition py_float :: "rat \<Rightarrow> rat" where
  "py_float d = round_digits 2 53 d"

definition py_round :: "rat \<Rightarrow> nat \<Rightarrow> rat" where
  "py_round x ndigits =
     py_float (rat_of_int (round_half_even (x * 10 ^ ndigits)) / 10 ^ ndigits)"



section \<open>Model instances\<close>

type_synonym date = int  \<comment> \<open>a \<open>datetime.date\<close>, as its proleptic Gregorian ordinal\<close>

record user =
  user_id :: nat
  username :: string
  email :: string
  first_name :: string
  last_name :: string
  role :: string
  date_joined :: int
  password :: string
  is_staff :: bool
  is_superuser :: bool
  is_active :: bool

record sprint =
  sprint_id :: nat
  project :: nat
  start_date :: date
  end_date :: date
  created_at :: int

text \<open>
  \<open>metric_id\<close> is the primary key that \<open>/api/sprint-metrics/{id}/\<close> addresses; \<open>sprint\<close> is
  the key of the owning sprint.
\<close>

record sprint_metric =
  metric_id :: nat
  sprint :: nat
  cost :: rat
  estimated_business_value :: rat
  velocity :: int

datatype json =
    JNull
  | JInt int
  | JStr string
  | JFloat rat
  | JDecimal rat
  | JList "json list"
  | JObj "(string \<times> json) list"


section \<open>serializers.py\<close>

subsection \<open>UserSerializer\<close>

text \<open>Attribute access on a \<open>User\<close> by name; \<open>password\<close> is an attribute like the others.\<close>

definition user_getattr :: "user \<Rightarrow> string \<Rightarrow> json option" where
  "user_getattr u f =
     (if f = ''id'' then Some (JInt (int (user_id u)))
      else if f = ''username'' then Some (JStr (username u))
      else if f = ''email'' then Some (JStr (email u))
      else if f = ''first_name'' then Some (JStr (first_name u))
      else if f = ''last_name'' then Some (JStr (last_name u))
      else if f = ''role'' then Some (JStr (role u))
      else if f = ''date_joined'' then Some (JInt (date_joined u))
      else if f = ''password'' then Some (JStr (password u))
      else if f = ''is_staff'' then Some (JInt (if is_staff u then 1 else 0))
      else if f = ''is_superuser'' then Some (JInt (if is_superuser u then 1 else 0))
      else if f = ''is_active'' then Some (JInt (if is_active u then 1 else 0))
      else None)"

definition UserSerializer_fields :: "string list" where
  "UserSerializer_fields =
     [''id'', ''username'', ''email'', ''first_name'', ''last_name'', ''role'', ''date_joined'']"

definition UserSerializer_read_only_fields :: "string list" where
  "UserSerializer_read_only_fields = [''id'', ''date_joined'']"

text \<open>\<open>to_representation\<close> emits one entry for each name of \<open>Meta.fields\<close>, in that order.\<close>

definition user_to_representation :: "user \<Rightarrow> (string \<times> json) list" where
  "user_to_representation u =
     List.map_filter (\<lambda>f. map_option (Pair f) (user_getattr u f)) UserSerializer_fields"

subsection \<open>SprintMetricSerializer\<close>

definition get_roi :: "sprint_metric \<Rightarrow> exn + rat option" where
  "get_roi obj =
     (if cost obj = 0 then Inr None
      else case dec_div (dec_sub (estimated_business_value obj) (cost obj)) (cost obj) of
             Inl e \<Rightarrow> Inl e
           | Inr roi_value \<Rightarrow> Inr (Some (py_round (py_float roi_value) 4)))"

definition SprintMetricSerializer_fields :: "string list" where
  "SprintMetricSerializer_fields =
     [''sprint'', ''cost'', ''estimated_business_value'', ''velocity'', ''roi'']"

definition SprintMetricSerializer_read_only_fields :: "string list" where
  "SprintMetricSerializer_read_only_fields = [''roi'']"

text \<open>
  The value of one serializer field: the four model fields read the attribute of that
  name (\<open>sprint\<close> as the key of the related sprint, the decimals as decimals), and
  \<open>roi\<close>, a \<open>SerializerMethodField\<close>, calls \<open>get_roi\<close>. Any other name is no field of
  the model or the serializer.
\<close>

definition metric_field_value :: "sprint_metric \<Rightarrow> string \<Rightarrow> exn + json option" where
  "metric_field_value obj f =
     (if f = ''sprint'' then Inr (Some (JInt (int (sprint obj))))
      else if f = ''cost'' then Inr (Some (JDecimal (cost obj)))
      else if f = ''estimated_business_value'' then
        Inr (Some (JDecimal (estimated_business_value obj)))
      else if f = ''velocity'' then Inr (Some (JInt (velocity obj)))
      else if f = ''id'' then Inr (Some (JInt (int (metric_id obj))))
      else if f = ''roi'' then
        (case get_roi obj of
           Inl e \<Rightarrow> Inl e
         | Inr None \<Rightarrow> Inr (Some JNull)
         | Inr (Some r) \<Rightarrow> Inr (Some (JFloat r)))
      else Inr None)"

fun metric_fields_representation ::
  "sprint_metric \<Rightarrow> string list \<Rightarrow> exn + (string \<times> json) list" where
  "metric_fields_representation obj [] = Inr []"
| "metric_fields_representation obj (f # fs) =
     (case metric_field_value obj f of
        Inl e \<Rightarrow> Inl e
      | Inr None \<Rightarrow> metric_fields_representation obj fs
      | Inr (Some v) \<Rightarrow>
          (case metric_fields_representation obj fs of
             Inl e \<Rightarrow> Inl e
           | Inr r \<Rightarrow> Inr ((f, v) # r)))"

definition metric_to_representation :: "sprint_metric \<Rightarrow> exn + (string \<times> json) list" where
  "metric_to_representation obj = metric_fields_representation obj SprintMetricSerializer_fields"

text \<open>
  The fields a client can write: those of \<open>Meta.fields\<close> that are neither listed in
  \<open>read_only_fields\<close> nor a \<open>SerializerMethodField\<close>. \<open>to_internal_value\<close> keeps the
  entries of the payload under these names and drops every other.
\<close>

definition SprintMetricSerializer_method_fields :: "string list" where
  "SprintMetricSerializer_method_fields = [''roi'']"

definition metric_writable_fields :: "string list" where
  "metric_writable_fields =
     filter (\<lambda>f. f \<notin> set SprintMetricSerializer_read_only_fields
                \<and> f \<notin> set SprintMetricSerializer_method_fields)
       SprintMetricSerializer_fields"

definition metric_to_internal_value :: "(string \<rightharpoonup> json) \<Rightarrow> (string \<rightharpoonup> json)" where
  "metric_to_internal_value data = data |` set metric_writable_fields"


subsection \<open>SprintSerializer\<close>

text \<open>
  The validated payload \<open>data\<close> is a dictionary from field names to values: a date under
  \<open>start_date\<close> and \<open>end_date\<close>, a \<open>Project\<close> instance (by its key) under \<open>project\<close>. A partial
  update leaves out the keys the client did not send.
\<close>

datatype field_value = DateValue date | InstanceValue nat

text \<open>Dates and model instances are truthy, so \<open>data.get(k)\<close> is falsy only as \<open>None\<close>.\<close>

fun truthy :: "field_value option \<Rightarrow> bool" where
  "truthy None = False"
| "truthy (Some v) = True"

fun py_lt :: "field_value \<Rightarrow> field_value \<Rightarrow> exn + bool" where
  "py_lt (DateValue a) (DateValue b) = Inr (a < b)"
| "py_lt a b = Inl TypeError"

definition validate :: "(string \<rightharpoonup> field_value) \<Rightarrow> exn + (string \<rightharpoonup> field_value)" where
  "validate data =
     (if truthy (data ''end_date'') \<and> truthy (data ''start_date'') then
        (case (data ''end_date'', data ''start_date'') of
           (Some e, Some s) \<Rightarrow>
             (case py_lt e s of
                Inl err \<Rightarrow> Inl err
              | Inr True \<Rightarrow>
                  Inl (ValidationError
                    [(''end_date'', ''End date must be after or equal to start date.'')])
              | Inr False \<Rightarrow> Inr data)
         | _ \<Rightarrow> Inr data)
      else Inr data)"

definition SprintSerializer_writable_fields :: "string list" where
  "SprintSerializer_writable_fields = [''project'', ''start_date'', ''end_date'']"

text \<open>
  \<open>is_valid\<close>: the fields are checked first (a full write needs every writable field, a
  partial one does not), then \<open>validate\<close> sees the payload.
\<close>

definition is_valid :: "bool \<Rightarrow> (string \<rightharpoonup> field_value) \<Rightarrow> exn + (string \<rightharpoonup> field_value)" where
  "is_valid partial data =
     (let missing = filter (\<lambda>f. data f = None) SprintSerializer_writable_fields
      in if \<not> partial \<and> missing \<noteq> [] then
           Inl (ValidationError (map (\<lambda>f. (f, ''This field is required.'')) missing))
         else validate data)"

definition sprint_setattr :: "sprint \<Rightarrow> string \<Rightarrow> field_value \<Rightarrow> sprint" where
  "sprint_setattr s k v =
     (case v of
        DateValue d \<Rightarrow>
          (if k = ''start_date'' then s\<lparr>start_date := d\<rparr>
           else if k = ''end_date'' then s\<lparr>end_date := d\<rparr>
           else s)
      | InstanceValue p \<Rightarrow> (if k = ''project'' then s\<lparr>project := p\<rparr> else s))"

text \<open>\<open>ModelSerializer.update\<close>: every entry of the validated payload is set on the instance.\<close>

definition serializer_update :: "sprint \<Rightarrow> (string \<rightharpoonup> field_value) \<Rightarrow> sprint" where
  "serializer_update instance validated_data =
     foldl (\<lambda>s k. case validated_data k of None \<Rightarrow> s | Some v \<Rightarrow> sprint_setattr s k v)
       instance SprintSerializer_writable_fields"

text \<open>
  \<open>ModelSerializer.create\<close>: a new row. \<open>new_pk\<close> is the key that the sequence of the
  database hands out for it (one it has not handed out before, also not to a row deleted
  since), and \<open>now\<close> is the clock reading that \<open>created_at\<close> receives.
\<close>

definition serializer_create :: "nat \<Rightarrow> int \<Rightarrow> (string \<rightharpoonup> field_value) \<Rightarrow> sprint" where
  "serializer_create new_pk now validated_data =
     serializer_update
       \<lparr>sprint_id = new_pk, project = 0, start_date = 0, end_date = 0, created_at = now\<rparr>
       validated_data"


section \<open>views.py\<close>

subsection \<open>SprintViewSet: the write actions\<close>

text \<open>
  The create, update and partial-update actions of a \<open>ModelViewSet\<close> call
  \<open>serializer.is_valid(raise_exception=True)\<close> and only then \<open>serializer.save()\<close>. Each
  returns the table of sprints after the request, or the exception that ended it.
\<close>

definition sprint_create ::
  "sprint list \<Rightarrow> nat \<Rightarrow> int \<Rightarrow> (string \<rightharpoonup> field_value) \<Rightarrow> exn + sprint list" where
  "sprint_create table new_pk now data =
     (case is_valid False data of
        Inl e \<Rightarrow> Inl e
      | Inr validated_data \<Rightarrow> Inr (table @ [serializer_create new_pk now validated_data]))"

definition sprint_update ::
  "bool \<Rightarrow> sprint list \<Rightarrow> nat \<Rightarrow> (string \<rightharpoonup> field_value) \<Rightarrow> exn + sprint list" where
  "sprint_update partial table pk data =
     (case find (\<lambda>s. sprint_id s = pk) table of
        None \<Rightarrow> Inl Http404
      | Some instance \<Rightarrow>
          (case is_valid partial data of
             Inl e \<Rightarrow> Inl e
           | Inr validated_data \<Rightarrow>
               Inr (map (\<lambda>s. if sprint_id s = pk then serializer_update instance validated_data
                              else s) table)))"

subsection \<open>SprintMetricViewSet.high_roi\<close>




subsection \<open>The generic viewset behaviour that the four viewsets inherit\<close>

datatype http_method = GET | POST | PUT | PATCH | DELETE

datatype route = Collection | Detail nat

datatype action = List_action | Retrieve | Create | Update | Partial_update | Destroy

datatype viewset_base = ModelViewSet | ReadOnlyModelViewSet

datatype permission = IsAuthenticated | AllowAny

datatype filter_backend = DjangoFilterBackend | SearchFilter | OrderingFilter

record viewset =
  base :: viewset_base
  permission_classes :: "permission list"
  filter_backends :: "filter_backend list"
  search_fields :: "string list"
  filterset_fields :: "string list"
  ordering_fields :: "string list"
  ordering :: "string list"

text \<open>
  What the authentication classes of settings.py (session, then basic) make of a
  request: they accept it and give it a user; or it carries no credentials at all; or
  they refuse its credentials with a detail of their own (\<open>Invalid username/password.\<close>
  for a wrong basic password).
\<close>

datatype authentication = Authenticated | NotAuthenticated | AuthenticationFailed string

text \<open>
  A request as the view sees it: \<open>page\<close> is the page number asked for (1 when the query
  names none) and \<open>body\<close> the instance that the serializer builds from a valid payload.
\<close>

record request =
  request_method :: http_method
  authentication :: authentication
  query_params :: "(string \<times> string) list"
  page :: nat
  body :: "user option"

datatype response = Response nat json

text \<open>The actions a viewset class has: \<open>ReadOnlyModelViewSet\<close> mixes in retrieve and list only.\<close>

fun viewset_actions :: "viewset_base \<Rightarrow> action list" where
  "viewset_actions ModelViewSet = [Create, Retrieve, Update, Partial_update, Destroy, List_action]"
| "viewset_actions ReadOnlyModelViewSet = [Retrieve, List_action]"

text \<open>
  The router's two routes and their method maps; a method is bound only when the
  viewset has the action.
\<close>

fun route_mapping :: "route \<Rightarrow> (http_method \<times> action) list" where
  "route_mapping Collection = [(GET, List_action), (POST, Create)]"
| "route_mapping (Detail pk) =
     [(GET, Retrieve), (PUT, Update), (PATCH, Partial_update), (DELETE, Destroy)]"

definition get_method_map :: "viewset \<Rightarrow> route \<Rightarrow> (http_method \<times> action) list" where
  "get_method_map vs r =
     filter (\<lambda>(m, a). a \<in> set (viewset_actions (base vs))) (route_mapping r)"

subsection \<open>Filter backends, on the table of users\<close>

definition user_column :: "user \<Rightarrow> string \<Rightarrow> string option" where
  "user_column u f =
     (if f = ''username'' then Some (username u)
      else if f = ''email'' then Some (email u)
      else if f = ''first_name'' then Some (first_name u)
      else if f = ''last_name'' then Some (last_name u)
      else if f = ''role'' then Some (role u)
      else None)"

text \<open>\<open>DjangoFilterBackend\<close>: an exact match for each declared field that the query names.\<close>

definition django_filter :: "viewset \<Rightarrow> request \<Rightarrow> user list \<Rightarrow> user list" where
  "django_filter vs req queryset =
     foldl (\<lambda>qs f. case map_of (query_params req) f of
                       None \<Rightarrow> qs
                     | Some v \<Rightarrow> if v = [] then qs
                                else filter (\<lambda>u. user_column u f = Some v) qs)
       queryset (filterset_fields vs)"

definition lower :: "char \<Rightarrow> char" where
  "lower c = (if CHR ''A'' \<le> c \<and> c \<le> CHR ''Z'' then char_of (of_char c + (32::nat)) else c)"

fun starts_with :: "string \<Rightarrow> string \<Rightarrow> bool" where
  "starts_with [] ys = True"
| "starts_with (x # xs) [] = False"
| "starts_with (x # xs) (y # ys) = (x = y \<and> starts_with xs ys)"

fun contains :: "string \<Rightarrow> string \<Rightarrow> bool" where
  "contains t [] = (t = [])"
| "contains t (y # ys) = (starts_with t (y # ys) \<or> contains t ys)"

definition icontains :: "string \<Rightarrow> string \<Rightarrow> bool" where
  "icontains t v = contains (map lower t) (map lower v)"

text \<open>The search terms: the parameter split at commas and blanks.\<close>

fun split_terms :: "char list \<Rightarrow> string \<Rightarrow> string \<Rightarrow> string list" where
  "split_terms seps acc [] = (if acc = [] then [] else [rev acc])"
| "split_terms seps acc (c # cs) =
     (if c \<in> set seps
      then (if acc = [] then split_terms seps [] cs else rev acc # split_terms seps [] cs)
      else split_terms seps (c # acc) cs)"

definition search_filter :: "viewset \<Rightarrow> request \<Rightarrow> user list \<Rightarrow> user list" where
  "search_filter vs req queryset =
     (case map_of (query_params req) ''search'' of
        None \<Rightarrow> queryset
      | Some s \<Rightarrow>
          filter (\<lambda>u. list_all (\<lambda>t. list_ex (\<lambda>f. case user_column u f of
                                                      None \<Rightarrow> False
                                                    | Some v \<Rightarrow> icontains t v)
                                          (search_fields vs))
                         (split_terms [CHR '','', CHR '' ''] [] s))
            queryset)"

text \<open>
  \<open>OrderingFilter\<close>: the terms of the \<open>ordering\<close> parameter (split at commas, blanks
  stripped) that name an ordering field, or the viewset's default when there is none;
  \<open>-\<close> before a name reverses the order. The first term is the primary key of the order.
\<close>

definition ordering_name :: "string \<Rightarrow> string" where
  "ordering_name t = (case t of [] \<Rightarrow> [] | c # cs \<Rightarrow> if c = CHR ''-'' then cs else t)"

definition strip :: "string \<Rightarrow> string" where
  "strip s = rev (dropWhile (\<lambda>c. c = CHR '' '') (rev (dropWhile (\<lambda>c. c = CHR '' '') s)))"

definition get_ordering :: "viewset \<Rightarrow> request \<Rightarrow> string list" where
  "get_ordering vs req =
     (case map_of (query_params req) ''ordering'' of
        None \<Rightarrow> ordering vs
      | Some s \<Rightarrow>
          (let valid = filter (\<lambda>t. ordering_name t \<in> set (ordering_fields vs))
                         (map strip (split_terms [CHR '',''] [] s))
           in if valid = [] then ordering vs else valid))"

definition sort_users :: "string \<Rightarrow> user list \<Rightarrow> user list" where
  "sort_users f us =
     (if f = ''username'' then sort_key username us
      else if f = ''date_joined'' then sort_key date_joined us
      else us)"

definition order_by_term :: "string \<Rightarrow> user list \<Rightarrow> user list" where
  "order_by_term t us =
     (if ordering_name t = t then sort_users t us
      else rev (sort_users (ordering_name t) (rev us)))"

definition ordering_filter :: "viewset \<Rightarrow> request \<Rightarrow> user list \<Rightarrow> user list" where
  "ordering_filter vs req queryset = foldr order_by_term (get_ordering vs req) queryset"

fun backend_filter_queryset ::
  "filter_backend \<Rightarrow> viewset \<Rightarrow> request \<Rightarrow> user list \<Rightarrow> user list" where
  "backend_filter_queryset DjangoFilterBackend vs req qs = django_filter vs req qs"
| "backend_filter_queryset SearchFilter vs req qs = search_filter vs req qs"
| "backend_filter_queryset OrderingFilter vs req qs = ordering_filter vs req qs"

text \<open>\<open>GenericAPIView.filter_queryset\<close>: the viewset's own backends, one after the other.\<close>

definition filter_queryset :: "viewset \<Rightarrow> request \<Rightarrow> user list \<Rightarrow> user list" where
  "filter_queryset vs req queryset =
     foldl (\<lambda>qs b. backend_filter_queryset b vs req qs) queryset (filter_backends vs)"

subsection \<open>Pagination (settings.py: page-number pagination, 20 to the page)\<close>

definition PAGE_SIZE :: nat where
  "PAGE_SIZE = 20"

definition paginate_queryset :: "nat \<Rightarrow> 'a list \<Rightarrow> 'a list option" where
  "paginate_queryset p xs =
     (if p = 0 \<or> (1 < p \<and> length xs \<le> (p - 1) * PAGE_SIZE) then None
      else Some (take PAGE_SIZE (drop ((p - 1) * PAGE_SIZE) xs)))"

definition paginated_response :: "nat \<Rightarrow> nat \<Rightarrow> json list \<Rightarrow> json" where
  "paginated_response p cnt results =
     JObj [(''count'', JInt (int cnt)),
           (''next'', if p * PAGE_SIZE < cnt then JInt (int (p + 1)) else JNull),
           (''previous'', if 1 < p then JInt (int (p - 1)) else JNull),
           (''results'', JList results)]"

subsection \<open>UserViewSet\<close>

definition UserViewSet :: viewset where
  "UserViewSet =
     \<lparr>base = ReadOnlyModelViewSet,
      permission_classes = [IsAuthenticated],
      filter_backends = [SearchFilter, OrderingFilter],
      search_fields = [''username'', ''email'', ''first_name'', ''last_name''],
      filterset_fields = [''role''],
      ordering_fields = [''username'', ''date_joined''],
      ordering = [''username'']\<rparr>"

definition list_action :: "viewset \<Rightarrow> user list \<Rightarrow> request \<Rightarrow> response" where
  "list_action vs table req =
     (let queryset = filter_queryset vs req table
      in case paginate_queryset (page req) queryset of
           None \<Rightarrow> Response 404 (JObj [(''detail'', JStr ''Invalid page.'')])
         | Some pg \<Rightarrow>
             Response 200
               (paginated_response (page req) (length queryset)
                  (map (\<lambda>u. JObj (user_to_representation u)) pg)))"

definition not_found :: response where
  "not_found = Response 404 (JObj [(''detail'', JStr ''Not found.'')])"

text \<open>
  The six actions of the generic viewset on the table of users. The write actions are
  those of \<open>ModelViewSet\<close>; whether a request reaches one is decided by \<open>dispatch\<close>.
\<close>

fun perform :: "viewset \<Rightarrow> user list \<Rightarrow> route \<Rightarrow> action \<Rightarrow> request \<Rightarrow> response \<times> user list" where
  "perform vs table r List_action req = (list_action vs table req, table)"
| "perform vs table (Detail pk) Retrieve req =
     (case find (\<lambda>u. user_id u = pk) table of
        None \<Rightarrow> (not_found, table)
      | Some u \<Rightarrow> (Response 200 (JObj (user_to_representation u)), table))"
| "perform vs table r Create req =
     (case body req of
        None \<Rightarrow> (Response 400 (JObj []), table)
      | Some u \<Rightarrow> (Response 201 (JObj (user_to_representation u)), table @ [u]))"
| "perform vs table (Detail pk) Destroy req =
     (case find (\<lambda>u. user_id u = pk) table of
        None \<Rightarrow> (not_found, table)
      | Some u \<Rightarrow> (Response 204 JNull, filter (\<lambda>u. user_id u \<noteq> pk) table))"
| "perform vs table (Detail pk) a req =
     (case (find (\<lambda>u. user_id u = pk) table, body req) of
        (None, _) \<Rightarrow> (not_found, table)
      | (Some _, None) \<Rightarrow> (Response 400 (JObj []), table)
      | (Some _, Some u) \<Rightarrow>
          (Response 200 (JObj (user_to_representation u)),
           map (\<lambda>old. if user_id old = pk then u else old) table))"
| "perform vs table Collection a req = (not_found, table)"

fun method_name :: "http_method \<Rightarrow> string" where
  "method_name GET = ''GET''"
| "method_name POST = ''POST''"
| "method_name PUT = ''PUT''"
| "method_name PATCH = ''PATCH''"
| "method_name DELETE = ''DELETE''"

text \<open>
  The handler of a request that passed \<open>initial\<close>: the action bound to its method, or
  \<open>http_method_not_allowed\<close>, which answers 405 with the method's name between double
  quotes (the character \<open>0x22\<close>) in the detail.
\<close>

definition handler :: "viewset \<Rightarrow> user list \<Rightarrow> route \<Rightarrow> request \<Rightarrow> response \<times> user list" where
  "handler vs table r req =
     (case map_of (get_method_map vs r) (request_method req) of
        None \<Rightarrow>
          (Response 405
             (JObj [(''detail'',
                     JStr (''Method '' @ [CHR 0x22] @ method_name (request_method req)
                           @ [CHR 0x22] @ '' not allowed.''))]),
           table)
      | Some a \<Rightarrow> perform vs table r a req)"

text \<open>
  \<open>APIView.dispatch\<close>: \<open>initial\<close> authenticates the request and checks the permissions
  before the handler is looked up, so a request that is not authenticated is refused
  whatever its method: refused credentials with the detail of the authentication class,
  missing ones by \<open>IsAuthenticated\<close>; both with 403, since session authentication comes
  first in settings.py and sends no challenge.
\<close>

definition dispatch :: "viewset \<Rightarrow> user list \<Rightarrow> route \<Rightarrow> request \<Rightarrow> response \<times> user list" where
  "dispatch vs table r req =
     (case authentication req of
        AuthenticationFailed detail \<Rightarrow> (Response 403 (JObj [(''detail'', JStr detail)]), table)
      | NotAuthenticated \<Rightarrow>
          (if IsAuthenticated \<in> set (permission_classes vs) then
             (Response 403
                (JObj [(''detail'', JStr ''Authentication credentials were not provided.'')]),
              table)
           else handler vs table r req)
      | Authenticated \<Rightarrow> handler vs table r req)"

subsection \<open>Two rows of the user table\<close>

text \<open>An administrator and a member, for evaluating the list endpoint on a role filter.\<close>

definition user_alice :: user where
  "user_alice =
     \<lparr>user_id = 1, username = ''alice'', email = ''alice@example.org'',
      first_name = ''Alice'', last_name = ''Adams'', role = ''admin'', date_joined = 1,
      password = ''pbkdf2$a'', is_staff = True, is_superuser = False, is_active = True\<rparr>"

definition user_bob :: user where
  "user_bob =
     \<lparr>user_id = 2, username = ''bob'', email = ''bob@example.org'',
      first_name = ''Bob'', last_name = ''Brown'', role = ''member'', date_joined = 2,
      password = ''pbkdf2$b'', is_staff = False, is_superuser = False, is_active = True\<rparr>"


section \<open>Rounding: error bounds and evaluation\<close>

lemma round_half_even_error: "\<bar>rat_of_int (round_half_even x) - x\<bar> \<le> 1/2"
proof -
  have "rat_of_int \<lfloor>x\<rfloor> \<le> x" "x < rat_of_int \<lfloor>x\<rfloor> + 1"
    by linarith+
  then show ?thesis
    by (auto simp: round_half_even_def Let_def)
qed

lemma round_half_even_of_int [simp]: "round_half_even (rat_of_int n) = n"
  by (simp add: round_half_even_def)

lemma round_half_even_0 [simp]: "round_half_even 0 = 0"
  using round_half_even_of_int [of 0] by simp

lemma ilog_bounds:
  assumes b: "1 < b" and x: "x \<noteq> 0"
  shows "rat_of_nat b powi (ilog b x) \<le> \<bar>x\<bar>" and "\<bar>x\<bar> < rat_of_nat b powi (ilog b x + 1)"
proof -
  obtain n d where q: "quotient_of \<bar>x\<bar> = (n, d)" by (cases "quotient_of \<bar>x\<bar>")
  then have d: "0 < d" and xe: "\<bar>x\<bar> = rat_of_int n / rat_of_int d"
    using quotient_of_denom_pos quotient_of_div by blast+
  from x have "0 < \<bar>x\<bar>" by simp
  with xe d have n: "0 < n"
    by (simp add: zero_less_divide_iff)
  define B where "B = rat_of_nat b"
  have B1: "1 < B" using b by (simp add: B_def)
  then have B0: "0 < B" by simp
  define ln where "ln = floorlog b (nat n)"
  define ld where "ld = floorlog b (nat d)"
  have nb: "b ^ (ln - 1) \<le> nat n" "nat n < b ^ ln"
    using floorlog_bounds [of "nat n" b] n b by (simp_all add: ln_def)
  have db: "b ^ (ld - 1) \<le> nat d" "nat d < b ^ ld"
    using floorlog_bounds [of "nat d" b] d b by (simp_all add: ld_def)
  have ln1: "1 \<le> ln" using n b by (simp add: ln_def floorlog_def)
  have ld1: "1 \<le> ld" using d b by (simp add: ld_def floorlog_def)
  have rn: "rat_of_nat (nat n) = rat_of_int n" using n by simp
  have rd: "rat_of_nat (nat d) = rat_of_int d" using d by simp
  have n_lo: "B ^ (ln - 1) \<le> rat_of_int n"
    using nb(1) rn unfolding B_def by (metis of_nat_le_iff of_nat_power)
  have n_hi: "rat_of_int n < B ^ ln"
    using nb(2) rn unfolding B_def by (metis of_nat_less_iff of_nat_power)
  have d_lo: "B ^ (ld - 1) \<le> rat_of_int d"
    using db(1) rd unfolding B_def by (metis of_nat_le_iff of_nat_power)
  have d_hi: "rat_of_int d < B ^ ld"
    using db(2) rd unfolding B_def by (metis of_nat_less_iff of_nat_power)
  define e0 where "e0 = int ln - int ld"
  have dpos: "0 < rat_of_int d" using d by simp
  have npos: "0 < rat_of_int n" using n by simp
  have up: "\<bar>x\<bar> < B powi (e0 + 1)"
  proof -
    have "B powi (e0 + 1) = B ^ ln / B ^ (ld - 1)"
      using B0 ld1 by (simp add: e0_def power_int_diff power_int_add of_nat_diff flip: power_int_of_nat)
    moreover have "rat_of_int n / rat_of_int d < B ^ ln / B ^ (ld - 1)"
      using n_hi d_lo npos B0 by (intro frac_less) auto
    ultimately show ?thesis by (simp add: xe)
  qed
  have lo: "B powi (e0 - 1) < \<bar>x\<bar>"
  proof -
    have "B powi (e0 - 1) = B ^ (ln - 1) / B ^ ld"
      using B0 ln1 by (simp add: e0_def power_int_diff of_nat_diff flip: power_int_of_nat)
    moreover have "B ^ (ln - 1) / B ^ ld < rat_of_int n / rat_of_int d"
      using n_lo d_hi dpos B0 by (intro frac_less2) auto
    ultimately show ?thesis by (simp add: xe)
  qed
  have il: "ilog b x = (if B powi e0 \<le> \<bar>x\<bar> then e0 else e0 - 1)"
    by (simp add: ilog_def q e0_def ln_def ld_def B_def Let_def)
  show "rat_of_nat b powi (ilog b x) \<le> \<bar>x\<bar>"
    using lo unfolding il B_def [symmetric] by auto
  show "\<bar>x\<bar> < rat_of_nat b powi (ilog b x + 1)"
    using up unfolding il B_def [symmetric] by (auto simp: not_le)
qed


lemma ilog_unique:
  assumes b: "1 < b"
    and lo: "rat_of_nat b powi e \<le> \<bar>x\<bar>" and hi: "\<bar>x\<bar> < rat_of_nat b powi (e + 1)"
  shows "ilog b x = e"
proof -
  have B1: "1 < rat_of_nat b" using b by simp
  then have "0 < rat_of_nat b powi e" by simp
  with lo have x: "x \<noteq> 0" by auto
  note il = ilog_bounds [OF b x]
  have "ilog b x < e + 1"
  proof (rule ccontr)
    assume "\<not> ilog b x < e + 1"
    then have "rat_of_nat b powi (e + 1) \<le> rat_of_nat b powi (ilog b x)"
      using B1 by (intro power_int_increasing) auto
    with il(1) hi show False by linarith
  qed
  moreover have "e < ilog b x + 1"
  proof (rule ccontr)
    assume "\<not> e < ilog b x + 1"
    then have "rat_of_nat b powi (ilog b x + 1) \<le> rat_of_nat b powi e"
      using B1 by (intro power_int_increasing) auto
    with il(2) lo show False by linarith
  qed
  ultimately show ?thesis by linarith
qed

lemma round_digits_0 [simp]: "round_digits b p 0 = 0"
  by (simp add: round_digits_def)

lemma round_digits_error:
  assumes b: "1 < b"
  shows "\<bar>round_digits b p x - x\<bar> \<le> \<bar>x\<bar> * rat_of_nat b powi (1 - int p) / 2"
proof (cases "x = 0")
  case True
  then show ?thesis by simp
next
  case False
  define B where "B = rat_of_nat b"
  have B0: "0 < B" using b by (simp add: B_def)
  define e where "e = ilog b x - (int p - 1)"
  define z where "z = x / B powi e"
  have Be: "0 < B powi e" using B0 by simp
  have Bne: "B powi e \<noteq> 0" using B0 by (simp add: power_int_not_zero)
  have zB: "z * B powi e = x" using Bne by (simp add: z_def)
  have r: "round_digits b p x = rat_of_int (round_half_even z) * B powi e"
    using False by (simp add: round_digits_def e_def z_def B_def Let_def)
  have "round_digits b p x - x = (rat_of_int (round_half_even z) - z) * B powi e"
    by (simp add: r left_diff_distrib zB)
  then have "\<bar>round_digits b p x - x\<bar> = \<bar>rat_of_int (round_half_even z) - z\<bar> * B powi e"
    using Be by (simp add: abs_mult)
  also have "\<dots> \<le> (1/2) * B powi e"
    using round_half_even_error [of z] Be by (intro mult_right_mono) auto
  also have "B powi e = B powi (ilog b x) * B powi (1 - int p)"
  proof -
    have "e = ilog b x + (1 - int p)" by (simp add: e_def)
    then show ?thesis using B0 by (simp add: power_int_add)
  qed
  also have "(1/2) * (B powi (ilog b x) * B powi (1 - int p)) \<le> (1/2) * (\<bar>x\<bar> * B powi (1 - int p))"
    using ilog_bounds(1) [OF b False] B0 unfolding B_def
    by (intro mult_left_mono mult_right_mono) auto
  finally show ?thesis by (simp add: B_def)
qed


lemma round_half_even_unique:
  assumes "\<bar>z - rat_of_int k\<bar> < 1/2"
  shows "round_half_even z = k"
proof -
  have "\<bar>rat_of_int (round_half_even z) - rat_of_int k\<bar> < 1"
    using round_half_even_error [of z] assms by linarith
  then have "\<bar>rat_of_int (round_half_even z - k)\<bar> < rat_of_int 1"
    by simp
  then have "\<bar>round_half_even z - k\<bar> < 1"
    unfolding of_int_abs [symmetric] of_int_less_iff .
  then show ?thesis by linarith
qed

lemma round_digits_exact:
  assumes b: "1 < b"
    and x: "x = rat_of_int n * rat_of_nat b powi e'"
    and n: "\<bar>n\<bar> < int b ^ p"
  shows "round_digits b p x = x"
proof (cases "x = 0")
  case True
  then show ?thesis by simp
next
  case False
  define B where "B = rat_of_nat b"
  have B1: "1 < B" using b by (simp add: B_def)
  then have B0: "0 < B" by simp
  define e where "e = ilog b x - (int p - 1)"
  have Bne: "B powi k \<noteq> 0" for k using B0 by (simp add: power_int_not_zero)
  have "\<bar>x\<bar> = rat_of_int \<bar>n\<bar> * B powi e'"
    using B0 by (simp add: x B_def abs_mult)
  also have "\<dots> < rat_of_int (int b ^ p) * B powi e'"
    using n B0 by (intro mult_strict_right_mono) (auto simp only: of_int_less_iff zero_less_power_int)
  also have "rat_of_int (int b ^ p) = B powi (int p)"
    by (simp add: B_def)
  also have "B powi (int p) * B powi e' = B powi (int p + e')"
    using B0 by (simp add: power_int_add)
  finally have up: "\<bar>x\<bar> < B powi (int p + e')" .
  have "ilog b x < int p + e'"
  proof (rule ccontr)
    assume "\<not> ilog b x < int p + e'"
    then have "B powi (int p + e') \<le> B powi (ilog b x)"
      using B1 by (intro power_int_increasing) auto
    with ilog_bounds(1) [OF b False] up show False by (simp add: B_def)
  qed
  then have ee: "e \<le> e'" by (simp add: e_def)
  define m where "m = n * int b ^ nat (e' - e)"
  have "x / B powi e = rat_of_int n * (B powi e' / B powi e)"
    by (simp add: x B_def)
  also have "B powi e' / B powi e = B powi (e' - e)"
    using B0 by (simp add: power_int_diff)
  also have "\<dots> = B ^ nat (e' - e)"
    using ee by (simp add: power_int_nonneg_exp)
  finally have z: "x / B powi e = rat_of_int m"
    by (simp add: m_def B_def)
  have "round_digits b p x = rat_of_int (round_half_even (x / B powi e)) * B powi e"
    using False by (simp add: round_digits_def e_def B_def Let_def)
  also have "\<dots> = (x / B powi e) * B powi e"
    by (simp add: z)
  also have "\<dots> = x" using Bne by simp
  finally show ?thesis .
qed

lemma round_digits_eval:
  assumes b: "1 < b"
    and lo: "rat_of_nat b powi e \<le> \<bar>x\<bar>" and hi: "\<bar>x\<bar> < rat_of_nat b powi (e + 1)"
    and k: "\<bar>x / rat_of_nat b powi (e - (int p - 1)) - rat_of_int k\<bar> < 1/2"
  shows "round_digits b p x = rat_of_int k * rat_of_nat b powi (e - (int p - 1))"
proof -
  have "0 < rat_of_nat b powi e" using b by simp
  with lo have "x \<noteq> 0" by auto
  then show ?thesis
    by (simp add: round_digits_def ilog_unique [OF b lo hi] Let_def
        round_half_even_unique [OF k])
qed

lemma get_roi_steps:
  assumes "cost obj \<noteq> 0"
    and "dec_sub (estimated_business_value obj) (cost obj) = a"
    and "dec_div a (cost obj) = Inr d"
    and "py_float d = x"
    and "py_round x 4 = r"
  shows "get_roi obj = Inr (Some r)"
  using assms by (simp add: get_roi_def)

lemma scenario_F_sub: "dec_sub (123456/100) (98765/100) = 24691/100"
proof -
  have "round_digits 10 28 (24691/100) = 24691/100"
    by (rule round_digits_exact [where n = 24691 and e' = "-2"]) simp_all
  then show ?thesis by (simp add: dec_sub_def)
qed

lemma scenario_F_div:
  "dec_div (24691/100) (98765/100) = Inr (2499974687389257328000810004 / 10 ^ 28)"
  using round_digits_eval [where b = 10 and p = 28 and e = "-1" and x = "24691/98765"
      and k = 2499974687389257328000810004]
  by (simp add: dec_div_def)

lemma scenario_F_float:
  "py_float (2499974687389257328000810004 / 10 ^ 28) = 9007108056449545 / 2 ^ 55"
  using round_digits_eval [where b = 2 and p = 53 and e = "-3"
      and x = "2499974687389257328000810004 / 10 ^ 28" and k = 9007108056449545]
  by (simp add: py_float_def)

lemma scenario_F_round: "py_round (9007108056449545 / 2 ^ 55) 4 = 1/4"
proof -
  have "round_half_even (9007108056449545 / 2 ^ 55 * 10 ^ 4) = 2500"
    by (rule round_half_even_unique) simp
  moreover have "round_digits 2 53 (1/4) = 1/4"
    by (rule round_digits_exact [where n = 1 and e' = "-2"]) simp_all
  ultimately show ?thesis by (simp add: py_round_def py_float_def)
qed

lemma dec_round_error: "\<bar>round_digits 10 28 x - x\<bar> \<le> \<bar>x\<bar> / (2 * 10 ^ 27)"
  using round_digits_error [of 10 28 x] by simp

lemma float_round_error: "\<bar>round_digits 2 53 x - x\<bar> \<le> \<bar>x\<bar> / 2 ^ 53"
  using round_digits_error [of 2 53 x] by simp

lemma float_round_eq_0: "round_digits 2 53 x = 0 \<Longrightarrow> x = 0"
  using float_round_error [of x] by (cases "x = 0") (auto simp: field_simps)

lemma rel_error_compose:
  fixes x y z :: rat
  assumes xy: "\<bar>y - x\<bar> \<le> \<bar>x\<bar> * u" and yz: "\<bar>z - y\<bar> \<le> \<bar>y\<bar> * w" and w: "0 \<le> w"
  shows "\<bar>z - x\<bar> \<le> \<bar>x\<bar> * (u + w + u * w)"
proof -
  have "\<bar>y\<bar> \<le> \<bar>x\<bar> + \<bar>x\<bar> * u" using xy by linarith
  then have "\<bar>y\<bar> * w \<le> (\<bar>x\<bar> + \<bar>x\<bar> * u) * w"
    using w by (rule mult_right_mono)
  with xy yz have "\<bar>z - x\<bar> \<le> \<bar>x\<bar> * u + (\<bar>x\<bar> + \<bar>x\<bar> * u) * w" by linarith
  then show ?thesis by (simp add: algebra_simps)
qed

lemma roi_value_error:
  assumes c: "c \<noteq> 0"
  shows "\<bar>round_digits 2 53 (round_digits 10 28 (round_digits 10 28 (v - c) / c)) - (v - c) / c\<bar>
          \<le> \<bar>(v - c) / c\<bar> / 2 ^ 52"
proof -
  define u :: rat where "u = 1 / (2 * 10 ^ 27)"
  define w :: rat where "w = 1 / 2 ^ 53"
  define a where "a = v - c"
  define s where "s = round_digits 10 28 a"
  define d where "d = round_digits 10 28 (s / c)"
  define x where "x = round_digits 2 53 d"
  have "\<bar>s - a\<bar> \<le> \<bar>a\<bar> * u"
    using dec_round_error [of a] by (simp add: s_def u_def)
  then have "\<bar>s - a\<bar> / \<bar>c\<bar> \<le> \<bar>a\<bar> * u / \<bar>c\<bar>"
    by (rule divide_right_mono) simp
  then have 1: "\<bar>s / c - a / c\<bar> \<le> \<bar>a / c\<bar> * u"
    by (simp add: diff_divide_distrib [symmetric] abs_divide)
  have 2: "\<bar>d - s / c\<bar> \<le> \<bar>s / c\<bar> * u"
    using dec_round_error [of "s / c"] by (simp add: d_def u_def)
  have 3: "\<bar>x - d\<bar> \<le> \<bar>d\<bar> * w"
    using float_round_error [of d] by (simp add: x_def w_def)
  have u0: "0 \<le> u" and w0: "0 \<le> w" by (simp_all add: u_def w_def)
  note 12 = rel_error_compose [OF 1 2 u0]
  note 123 = rel_error_compose [OF 12 3 w0]
  have "u + u + u * u + w + (u + u + u * u) * w \<le> 1 / 2 ^ 52"
    by (simp add: u_def w_def)
  then have "\<bar>a / c\<bar> * (u + u + u * u + w + (u + u + u * u) * w) \<le> \<bar>a / c\<bar> * (1 / 2 ^ 52)"
    by (intro mult_left_mono) auto
  with 123 have "\<bar>x - a / c\<bar> \<le> \<bar>a / c\<bar> * (1 / 2 ^ 52)" by linarith
  then show ?thesis by (simp add: x_def d_def s_def a_def)
qed

lemma get_roi_nonzero_cost:
  assumes "cost obj \<noteq> 0"
  shows "get_roi obj =
     Inr (Some (py_round (round_digits 2 53 (round_digits 10 28
        (round_digits 10 28 (estimated_business_value obj - cost obj) / cost obj))) 4))"
  using assms by (simp add: get_roi_def dec_div_def dec_sub_def py_float_def)


lemma py_round_0: "py_round 0 n = 0"
  by (simp add: py_round_def py_float_def)

lemma scaled_error:
  fixes k x s e :: rat
  assumes "\<bar>k - x * s\<bar> \<le> e" and s: "0 < s"
  shows "\<bar>k / s - x\<bar> \<le> e / s"
proof -
  have "k / s - x = (k - x * s) / s"
    using s by (simp add: diff_divide_distrib)
  then have "\<bar>k / s - x\<bar> = \<bar>(k - x * s) / s\<bar>"
    by (simp only:)
  also have "\<dots> = \<bar>k - x * s\<bar> / s"
    using s by simp
  finally have "\<bar>k / s - x\<bar> = \<bar>k - x * s\<bar> / s" .
  with assms(1) s show ?thesis
    by (simp add: divide_right_mono)
qed

lemma py_round_near:
  "\<exists>k. py_round x 4 = py_float (rat_of_int k / 10 ^ 4) \<and> k = round_half_even (x * 10 ^ 4)
      \<and> \<bar>rat_of_int k / 10 ^ 4 - x\<bar> \<le> 1 / (2 * 10 ^ 4)"
proof -
  define k where "k = round_half_even (x * 10 ^ 4)"
  have "\<bar>rat_of_int k - x * 10 ^ 4\<bar> \<le> 1/2"
    unfolding k_def by (rule round_half_even_error)
  then have "\<bar>rat_of_int k / 10 ^ 4 - x\<bar> \<le> (1/2) / 10 ^ 4"
    by (rule scaled_error) simp
  then show ?thesis by (auto simp: py_round_def k_def)
qed







section \<open>Serializers and viewsets: auxiliary facts\<close>

lemma metric_to_representation_eq:
  "metric_to_representation obj =
     (case get_roi obj of
        Inl e \<Rightarrow> Inl e
      | Inr v \<Rightarrow>
          Inr [(''sprint'', JInt (int (sprint obj))), (''cost'', JDecimal (cost obj)),
               (''estimated_business_value'', JDecimal (estimated_business_value obj)),
               (''velocity'', JInt (velocity obj)),
               (''roi'', case v of None \<Rightarrow> JNull | Some r \<Rightarrow> JFloat r)])"
  by (simp add: metric_to_representation_def SprintMetricSerializer_fields_def
      metric_field_value_def split: sum.splits option.splits)

lemma get_roi_returns: "\<exists>r. get_roi obj = Inr r"
  by (simp add: get_roi_def dec_div_def)




lemma validate_both_dates:
  assumes "data ''start_date'' = Some (DateValue s)" "data ''end_date'' = Some (DateValue e)"
  shows "validate data =
     (if e < s then Inl (ValidationError
                    [(''end_date'', ''End date must be after or equal to start date.'')])
      else Inr data)"
  using assms by (simp add: validate_def)

lemma validate_one_date_missing:
  assumes "data ''start_date'' = None \<or> data ''end_date'' = None"
  shows "validate data = Inr data"
  using assms by (auto simp: validate_def)

lemma serializer_update_end_date:
  "serializer_update instance [''end_date'' \<mapsto> DateValue e] = instance\<lparr>end_date := e\<rparr>"
  by (simp add: serializer_update_def SprintSerializer_writable_fields_def sprint_setattr_def)

text \<open>
  What \<open>DjangoFilterBackend\<close> does with \<open>filterset_fields = ['role']\<close> when it is among the
  backends, as it is for the \<open>project\<close> filter of \<open>SprintViewSet\<close>: the exact match.
\<close>

lemma django_filter_role:
  assumes "filterset_fields vs = [''role'']" and "map_of (query_params req) ''role'' = Some r"
    and "r \<noteq> []"
  shows "django_filter vs req queryset = filter (\<lambda>u. role u = r) queryset"
  using assms by (simp add: django_filter_def user_column_def)

lemma UserViewSet_method_map:
  "map_of (get_method_map UserViewSet r) m =
     (case r of Collection \<Rightarrow> (if m = GET then Some List_action else None)
              | Detail pk \<Rightarrow> (if m = GET then Some Retrieve else None))"
  by (cases r) (auto simp: get_method_map_def UserViewSet_def)

lemma perform_read_only:
  "a = List_action \<or> a = Retrieve \<Longrightarrow> snd (perform vs table r a req) = table"
  by (cases r) (auto split: option.splits)

lemma handler_UserViewSet_table: "snd (handler UserViewSet table r req) = table"
  by (cases r) (auto simp: handler_def UserViewSet_method_map perform_read_only split: option.splits)

lemma dispatch_UserViewSet_table: "snd (dispatch UserViewSet table r req) = table"
  by (cases "authentication req") (simp_all add: dispatch_def handler_UserViewSet_table)


section \<open>The claims\<close>



text \<open>
  C2, as the code has it. When cost is 0 the serialized \<open>roi\<close> is \<open>None\<close>, whatever the
  value: no exception and no number. When cost is not 0 it is a number, never \<open>None\<close>; it
  is 0 whenever the value equals the cost; and when it is 0 the value lies within one
  ten-thousandth of the cost (relative to the cost), since the ratio is rounded to four
  places. So 0 is told apart from the absent case, but it does not imply break-even.
\<close>

theorem C2_roi_absent_or_number:
  "(cost obj = 0 \<longrightarrow> get_roi obj = Inr None)
   \<and> (cost obj \<noteq> 0 \<longrightarrow>
        (\<exists>r. get_roi obj = Inr (Some r))
      \<and> (estimated_business_value obj = cost obj \<longrightarrow> get_roi obj = Inr (Some 0))
      \<and> (get_roi obj = Inr (Some 0) \<longrightarrow>
           \<bar>estimated_business_value obj - cost obj\<bar> < \<bar>cost obj\<bar> / 10 ^ 4))"
proof -
  have 1: "get_roi obj = Inr None" if "cost obj = 0"
    using that by (simp add: get_roi_def)
  have 2: "\<exists>r. get_roi obj = Inr (Some r)" if "cost obj \<noteq> 0"
    using get_roi_nonzero_cost [OF that] by simp
  have 3: "get_roi obj = Inr (Some 0)" if "cost obj \<noteq> 0" "estimated_business_value obj = cost obj"
    using get_roi_nonzero_cost [OF that(1)] that(2) by (simp add: py_round_0)
  have 4: "\<bar>estimated_business_value obj - cost obj\<bar> < \<bar>cost obj\<bar> / 10 ^ 4"
    if cne: "cost obj \<noteq> 0" and z: "get_roi obj = Inr (Some 0)"
  proof -
    define c where "c = cost obj"
    define v where "v = estimated_business_value obj"
    define q where "q = (v - c) / c"
    define x where "x = round_digits 2 53 (round_digits 10 28 (round_digits 10 28 (v - c) / c))"
    have c0: "c \<noteq> 0" using cne by (simp add: c_def)
    have xq: "\<bar>x - q\<bar> \<le> \<bar>q\<bar> / 2 ^ 52"
      unfolding x_def q_def using c0 by (rule roi_value_error)
    have "py_round x 4 = 0"
      using get_roi_nonzero_cost [OF cne] z by (simp add: x_def c_def v_def)
    with py_round_near [of x] obtain k where
      k: "py_float (rat_of_int k / 10 ^ 4) = 0" "\<bar>rat_of_int k / 10 ^ 4 - x\<bar> \<le> 1 / (2 * 10 ^ 4)"
      by auto
    from k(1) have "rat_of_int k / 10 ^ 4 = 0"
      unfolding py_float_def by (rule float_round_eq_0)
    with k(2) have "\<bar>x\<bar> \<le> 1 / (2 * 10 ^ 4)" by simp
    with xq have "\<bar>q\<bar> < 1 / 10 ^ 4" by (simp add: abs_if split: if_splits)
    then have "\<bar>v - c\<bar> / \<bar>c\<bar> < 1 / 10 ^ 4" by (simp add: q_def)
    moreover have "0 < \<bar>c\<bar>" using c0 by simp
    ultimately have "\<bar>v - c\<bar> < 1 / 10 ^ 4 * \<bar>c\<bar>"
      by (simp only: pos_divide_less_eq)
    then show ?thesis by (simp add: c_def v_def)
  qed
  from 1 2 3 4 show ?thesis by blast
qed

text \<open>
  The theorem at scenario C (cost 0.00, value 1000.00: \<open>None\<close>) and at scenario D (cost
  and value 1000.00: 0).
\<close>

theorem C2_roi_absent_or_number_witness:
  "get_roi \<lparr>metric_id = 1, sprint = 1, cost = 0, estimated_business_value = 1000,
            velocity = 10\<rparr> = Inr None
   \<and> get_roi \<lparr>metric_id = 1, sprint = 1, cost = 1000, estimated_business_value = 1000,
              velocity = 18\<rparr> = Inr (Some 0)"
  using C2_roi_absent_or_number
      [of "\<lparr>metric_id = 1, sprint = 1, cost = 0, estimated_business_value = 1000,
            velocity = 10\<rparr>"]
    C2_roi_absent_or_number
      [of "\<lparr>metric_id = 1, sprint = 1, cost = 1000, estimated_business_value = 1000,
            velocity = 18\<rparr>"]
  by simp

text \<open>
  C2 as stated fails in one direction: with cost 1000.00 and value 1000.01 the ratio
  0.00001 rounds to 0.0, so \<open>roi\<close> is 0 although the value differs from the cost.
\<close>

theorem C2_zero_roi_without_break_even_counterexample:
  "get_roi \<lparr>metric_id = 1, sprint = 1, cost = 1000, estimated_business_value = 100001 / 100,
            velocity = 1\<rparr> = Inr (Some 0)"
proof -
  define obj where "obj = \<lparr>metric_id = 1, sprint = 1, cost = 1000,
    estimated_business_value = 100001 / 100, velocity = 1\<rparr>"
  define x where "x = round_digits 2 53 (round_digits 10 28
        (round_digits 10 28 (estimated_business_value obj - cost obj) / cost obj))"
  have cne: "cost obj \<noteq> 0" by (simp add: obj_def)
  have "\<bar>x - (estimated_business_value obj - cost obj) / cost obj\<bar>
      \<le> \<bar>(estimated_business_value obj - cost obj) / cost obj\<bar> / 2 ^ 52"
    unfolding x_def using cne by (rule roi_value_error)
  then have "\<bar>x - 1 / 100000\<bar> \<le> (1 / 100000) / 2 ^ 52"
    by (simp add: obj_def)
  then have "\<bar>x * 10 ^ 4 - rat_of_int 0\<bar> < 1 / 2"
    by (simp add: abs_if split: if_splits)
  then have "round_half_even (x * 10 ^ 4) = 0"
    by (rule round_half_even_unique)
  then have "py_round x 4 = 0"
    by (simp add: py_round_def py_float_def)
  with get_roi_nonzero_cost [OF cne] show ?thesis
    by (simp add: x_def obj_def)
qed

text \<open>
  C3. For a Sprint payload that holds both dates: when the end date is before the start
  date, \<open>validate\<close> raises the validation error on the field \<open>end_date\<close> with the message
  "End date must be after or equal to start date.", and the create and the update action
  end with an exception, so no table is written; when the end date equals or follows the
  start date, \<open>validate\<close> returns the payload, and a create that also names the project
  appends the new sprint.
\<close>

theorem C3_sprint_date_validation:
  assumes "data ''start_date'' = Some (DateValue s)" and "data ''end_date'' = Some (DateValue e)"
  shows "(e < s \<longrightarrow>
            validate data = Inl (ValidationError
              [(''end_date'', ''End date must be after or equal to start date.'')])
          \<and> (\<exists>err. sprint_create table new_pk now data = Inl err)
          \<and> (\<exists>err. sprint_update partial table pk data = Inl err))
       \<and> (s \<le> e \<longrightarrow>
            validate data = Inr data
          \<and> (data ''project'' \<noteq> None \<longrightarrow>
               sprint_create table new_pk now data =
                 Inr (table @ [serializer_create new_pk now data])))"
  using assms validate_both_dates [OF assms]
  by (auto simp: sprint_create_def sprint_update_def is_valid_def Let_def
      SprintSerializer_writable_fields_def split: option.splits sum.splits)

text \<open>
  The theorem at three payloads: end before start (rejected, nothing created), end equal
  to start and end after start (both accepted).
\<close>

theorem C3_sprint_date_validation_witness:
  "validate [''start_date'' \<mapsto> DateValue 10, ''end_date'' \<mapsto> DateValue 5] =
     Inl (ValidationError [(''end_date'', ''End date must be after or equal to start date.'')])
   \<and> (\<exists>err. sprint_create [] 1 0 [''start_date'' \<mapsto> DateValue 10, ''end_date'' \<mapsto> DateValue 5]
         = Inl err)
   \<and> validate [''start_date'' \<mapsto> DateValue 5, ''end_date'' \<mapsto> DateValue 5] =
       Inr [''start_date'' \<mapsto> DateValue 5, ''end_date'' \<mapsto> DateValue 5]
   \<and> validate [''start_date'' \<mapsto> DateValue 5, ''end_date'' \<mapsto> DateValue 10] =
       Inr [''start_date'' \<mapsto> DateValue 5, ''end_date'' \<mapsto> DateValue 10]"
  using C3_sprint_date_validation
          [of "[''start_date'' \<mapsto> DateValue 10, ''end_date'' \<mapsto> DateValue 5]" 10 5 "[]" 1 0 False 0]
        C3_sprint_date_validation
          [of "[''start_date'' \<mapsto> DateValue 5, ''end_date'' \<mapsto> DateValue 5]" 5 5 "[]" 1 0 False 0]
        C3_sprint_date_validation
          [of "[''start_date'' \<mapsto> DateValue 5, ''end_date'' \<mapsto> DateValue 10]" 5 10 "[]" 1 0 False 0]
  by simp


text \<open>
  C5. The User viewset has the actions retrieve and list only. Every POST, PUT, PATCH or
  DELETE request of an authenticated caller to a User endpoint, the collection or an
  item, so every create, update, partial-update and delete request, is answered 405
  Method Not Allowed with the table of users as it was. A request that is not
  authenticated is refused with 403 before its method is looked up. No request at all
  changes the table of users.
\<close>

theorem C5_user_write_requests_not_allowed:
  "viewset_actions (base UserViewSet) = [Retrieve, List_action]
   \<and> (authentication req = Authenticated
        \<and> request_method req \<in> {POST, PUT, PATCH, DELETE} \<longrightarrow>
        dispatch UserViewSet table r req =
          (Response 405
             (JObj [(''detail'',
                     JStr (''Method '' @ [CHR 0x22] @ method_name (request_method req)
                           @ [CHR 0x22] @ '' not allowed.''))]),
           table))
   \<and> (authentication req \<noteq> Authenticated \<longrightarrow>
        (\<exists>detail. dispatch UserViewSet table r req =
           (Response 403 (JObj [(''detail'', JStr detail)]), table)))
   \<and> snd (dispatch UserViewSet table r req) = table"
proof -
  have "viewset_actions (base UserViewSet) = [Retrieve, List_action]"
    by (simp add: UserViewSet_def)
  moreover have "dispatch UserViewSet table r req =
          (Response 405
             (JObj [(''detail'',
                     JStr (''Method '' @ [CHR 0x22] @ method_name (request_method req)
                           @ [CHR 0x22] @ '' not allowed.''))]),
           table)"
    if "authentication req = Authenticated" "request_method req \<in> {POST, PUT, PATCH, DELETE}"
    using that by (cases r) (auto simp: dispatch_def handler_def UserViewSet_method_map)
  moreover have "\<exists>detail. dispatch UserViewSet table r req =
           (Response 403 (JObj [(''detail'', JStr detail)]), table)"
    if "authentication req \<noteq> Authenticated"
    using that by (cases "authentication req") (simp_all add: dispatch_def UserViewSet_def)
  ultimately show ?thesis
    using dispatch_UserViewSet_table by blast
qed

text \<open>
  The theorem at three requests on a table that holds one user: an authenticated DELETE
  of user 1 (405, detail \<open>Method "DELETE" not allowed.\<close>), a create request without
  credentials and one with refused credentials (403 both); the table is as before each
  time.
\<close>

theorem C5_user_write_requests_not_allowed_witness:
  "dispatch UserViewSet [user_alice] (Detail 1)
     \<lparr>request_method = DELETE, authentication = Authenticated, query_params = [], page = 1,
      body = None\<rparr> =
   (Response 405
      (JObj [(''detail'', JStr (''Method '' @ [CHR 0x22] @ ''DELETE'' @ [CHR 0x22]
                               @ '' not allowed.''))]),
    [user_alice])
   \<and> (\<exists>detail. dispatch UserViewSet [user_alice] Collection
         \<lparr>request_method = POST, authentication = NotAuthenticated, query_params = [],
          page = 1, body = Some user_bob\<rparr> =
       (Response 403 (JObj [(''detail'', JStr detail)]), [user_alice]))
   \<and> (\<exists>detail. dispatch UserViewSet [user_alice] Collection
         \<lparr>request_method = POST,
          authentication = AuthenticationFailed ''Invalid username/password.'',
          query_params = [], page = 1, body = Some user_bob\<rparr> =
       (Response 403 (JObj [(''detail'', JStr detail)]), [user_alice]))"
  using C5_user_write_requests_not_allowed
      [of "\<lparr>request_method = DELETE, authentication = Authenticated, query_params = [],
            page = 1, body = None\<rparr>" "[user_alice]" "Detail 1"]
    C5_user_write_requests_not_allowed
      [of "\<lparr>request_method = POST, authentication = NotAuthenticated, query_params = [],
            page = 1, body = Some user_bob\<rparr>" "[user_alice]" Collection]
    C5_user_write_requests_not_allowed
      [of "\<lparr>request_method = POST,
            authentication = AuthenticationFailed ''Invalid username/password.'',
            query_params = [], page = 1, body = Some user_bob\<rparr>" "[user_alice]" Collection]
  by simp

text \<open>
  C6 evaluated: the list request \<open>?role=admin\<close> of an authenticated caller on a table that
  holds an administrator and a member returns both users. \<open>filterset_fields\<close> names \<open>role\<close>,
  but the viewset's own \<open>filter_backends\<close> leave out \<open>DjangoFilterBackend\<close>, the one
  backend that reads it.
\<close>

theorem C6_role_filter_ignored:
  "dispatch UserViewSet [user_alice, user_bob] Collection
     \<lparr>request_method = GET, authentication = Authenticated,
      query_params = [(''role'', ''admin'')], page = 1, body = None\<rparr> =
   (Response 200
      (paginated_response 1 2
         [JObj (user_to_representation user_alice), JObj (user_to_representation user_bob)]),
    [user_alice, user_bob])"
proof -
  define req where "req = \<lparr>request_method = GET, authentication = Authenticated,
    query_params = [(''role'', ''admin'')], page = 1, body = None\<rparr>"
  have "username user_alice \<le> username user_bob"
    by (simp add: user_alice_def user_bob_def)
  then have "filter_queryset UserViewSet req [user_alice, user_bob] = [user_alice, user_bob]"
    by (simp add: filter_queryset_def UserViewSet_def search_filter_def ordering_filter_def
        get_ordering_def order_by_term_def ordering_name_def sort_users_def req_def)
  then have "list_action UserViewSet [user_alice, user_bob] req =
      Response 200 (paginated_response 1 2
         [JObj (user_to_representation user_alice), JObj (user_to_representation user_bob)])"
    by (simp add: list_action_def paginate_queryset_def PAGE_SIZE_def req_def numeral_2_eq_2)
  moreover have "authentication req = Authenticated" "request_method req = GET"
    by (simp_all add: req_def)
  ultimately show ?thesis
    unfolding req_def [symmetric]
    by (simp add: dispatch_def handler_def UserViewSet_method_map)
qed

text \<open>
  C7. The serialized User has exactly the fields id, username, email, first_name,
  last_name, role and date_joined, in this order; \<open>password\<close> is not among them, and the
  output is the same whatever the password is.
\<close>

theorem C7_user_representation_excludes_password:
  "map fst (user_to_representation u) =
     [''id'', ''username'', ''email'', ''first_name'', ''last_name'', ''role'', ''date_joined'']
   \<and> ''password'' \<notin> fst ` set (user_to_representation u)
   \<and> user_to_representation (u\<lparr>password := p\<rparr>) = user_to_representation u"
  by (simp add: user_to_representation_def UserSerializer_fields_def map_filter_simps
      user_getattr_def)

text \<open>
  C8. Scenario F: with cost 987.65 and value 1234.56 the serialized \<open>roi\<close> is 0.25. The
  decimal subtraction is exact (246.91), the decimal division gives the 28 digits
  0.2499974687389257328000810004, its float is \<open>9007108056449545 / 2\<^sup>5\<^sup>5\<close>, and rounding
  that to four places gives 0.25, which is also the exact quotient rounded to four
  places.
\<close>

theorem C8_scenario_F:
  "get_roi \<lparr>metric_id = 1, sprint = 1, cost = 98765/100,
            estimated_business_value = 123456/100, velocity = 22\<rparr> = Inr (Some (1/4))
   \<and> dec_sub (123456/100) (98765/100) = 24691/100
   \<and> dec_div (24691/100) (98765/100) = Inr (2499974687389257328000810004 / 10 ^ 28)
   \<and> \<bar>(123456/100 - 98765/100) / (98765/100) - (1/4 :: rat)\<bar> \<le> 1 / (2 * 10 ^ 4)"
proof -
  have "get_roi \<lparr>metric_id = 1, sprint = 1, cost = 98765/100,
            estimated_business_value = 123456/100, velocity = 22\<rparr> = Inr (Some (1/4))"
  proof (rule get_roi_steps)
    show "cost \<lparr>metric_id = 1, sprint = 1, cost = 98765/100,
              estimated_business_value = 123456/100, velocity = 22\<rparr> \<noteq> 0"
      by simp
    show "dec_sub (estimated_business_value \<lparr>metric_id = 1, sprint = 1, cost = 98765/100,
              estimated_business_value = 123456/100, velocity = 22\<rparr>)
            (cost \<lparr>metric_id = 1, sprint = 1, cost = 98765/100,
              estimated_business_value = 123456/100, velocity = 22\<rparr>) = 24691/100"
      by (simp only: sprint_metric.select_convs scenario_F_sub)
    show "dec_div (24691/100) (cost \<lparr>metric_id = 1, sprint = 1, cost = 98765/100,
              estimated_business_value = 123456/100, velocity = 22\<rparr>)
          = Inr (2499974687389257328000810004 / 10 ^ 28)"
      by (simp only: sprint_metric.select_convs scenario_F_div)
    show "py_float (2499974687389257328000810004 / 10 ^ 28) = 9007108056449545 / 2 ^ 55"
      by (rule scenario_F_float)
    show "py_round (9007108056449545 / 2 ^ 55) 4 = 1/4"
      by (rule scenario_F_round)
  qed
  moreover have "\<bar>(123456/100 - 98765/100) / (98765/100) - (1/4 :: rat)\<bar> \<le> 1 / (2 * 10 ^ 4)"
    by simp
  ultimately show ?thesis
    using scenario_F_sub scenario_F_div by blast
qed

text \<open>
  C9. A payload that lacks one of the two dates passes \<open>validate\<close> unchanged. So a PATCH
  that carries only \<open>end_date\<close> is accepted whatever the date, and the stored sprint then
  holds the new end date beside its old start date, also when the new end date is the
  earlier one.
\<close>

theorem C9_partial_update_skips_date_check:
  "(data ''start_date'' = None \<or> data ''end_date'' = None \<longrightarrow> validate data = Inr data)
   \<and> (find (\<lambda>s. sprint_id s = pk) table = Some instance \<longrightarrow>
        sprint_update True table pk [''end_date'' \<mapsto> DateValue e] =
          Inr (map (\<lambda>s. if sprint_id s = pk then instance\<lparr>end_date := e\<rparr> else s) table))"
  using validate_one_date_missing [of data]
  by (auto simp: sprint_update_def is_valid_def validate_def serializer_update_end_date)

text \<open>
  The theorem at a sprint that runs from day 10 to day 20: the PATCH \<open>end_date = 5\<close> is
  accepted, and the stored sprint then starts on day 10 and ends on day 5.
\<close>

theorem C9_partial_update_skips_date_check_witness:
  "sprint_update True
     [\<lparr>sprint_id = 1, project = 1, start_date = 10, end_date = 20, created_at = 0\<rparr>] 1
     [''end_date'' \<mapsto> DateValue 5] =
   Inr [\<lparr>sprint_id = 1, project = 1, start_date = 10, end_date = 5, created_at = 0\<rparr>]
   \<and> validate [''end_date'' \<mapsto> DateValue 5] = Inr [''end_date'' \<mapsto> DateValue 5]"
  using C9_partial_update_skips_date_check
    [of "[''end_date'' \<mapsto> DateValue 5]" 1
        "[\<lparr>sprint_id = 1, project = 1, start_date = 10, end_date = 20, created_at = 0\<rparr>]"
        "\<lparr>sprint_id = 1, project = 1, start_date = 10, end_date = 20, created_at = 0\<rparr>" 5]
  by simp

text \<open>
  C10. The serialized SprintMetric has exactly the fields sprint, cost,
  estimated_business_value, velocity and roi, in this order, and no \<open>id\<close>: the output does
  not depend on the metric's own key. \<open>sprint\<close> is the key of the owning sprint. \<open>roi\<close> is
  read-only: it is not a writable field, and a value sent under \<open>roi\<close> never reaches the
  validated payload.
\<close>

theorem C10_metric_representation_fields:
  "(\<exists>r. metric_to_representation obj = Inr r
        \<and> map fst r = [''sprint'', ''cost'', ''estimated_business_value'', ''velocity'', ''roi'']
        \<and> ''id'' \<notin> set (map fst r)
        \<and> map_of r ''sprint'' = Some (JInt (int (sprint obj))))
   \<and> metric_to_representation (obj\<lparr>metric_id := i\<rparr>) = metric_to_representation obj
   \<and> ''roi'' \<notin> set metric_writable_fields
   \<and> metric_to_internal_value (data(''roi'' \<mapsto> v)) = metric_to_internal_value data"
proof -
  obtain r where r: "get_roi obj = Inr r" using get_roi_returns by blast
  have 1: "\<exists>r. metric_to_representation obj = Inr r
        \<and> map fst r = [''sprint'', ''cost'', ''estimated_business_value'', ''velocity'', ''roi'']
        \<and> ''id'' \<notin> set (map fst r)
        \<and> map_of r ''sprint'' = Some (JInt (int (sprint obj)))"
    by (simp add: metric_to_representation_eq r)
  have "get_roi (obj\<lparr>metric_id := i\<rparr>) = get_roi obj"
    by (simp add: get_roi_def)
  then have 2: "metric_to_representation (obj\<lparr>metric_id := i\<rparr>) = metric_to_representation obj"
    by (simp add: metric_to_representation_eq split: sum.splits)
  have 3: "''roi'' \<notin> set metric_writable_fields"
    by (simp add: metric_writable_fields_def SprintMetricSerializer_read_only_fields_def)
  have 4: "metric_to_internal_value (data(''roi'' \<mapsto> v)) = metric_to_internal_value data"
    unfolding metric_to_internal_value_def using 3
    by (auto simp: restrict_map_def fun_eq_iff)
  from 1 2 3 4 show ?thesis by blast
qed

end
